theory Spec2Isabelle
  imports Complex_Main "HOL-Library.AList"
begin

section \<open>Values of the host language\<close>

text \<open>
  The request body and the model output are results of \<^verbatim>\<open>JSON.parse\<close>, and
  \<^verbatim>\<open>jsonSchemaToZod\<close> walks such a value. A value is one of the JSON kinds, or
  \<^verbatim>\<open>undefined\<close>, which a read of a missing property yields. An object is the list
  of its own enumerable properties in enumeration order (keys pairwise distinct); a lookup takes
  the first binding of a key. A number is kept as the text the host prints for it, which
  determines the number (up to the sign of zero); the program never computes with a number of
  the body, it only tells that a value is a number and, for a numeric \<^verbatim>\<open>type\<close>, prints
  it in an error message.
\<close>

datatype js_value =
    JUndefined
  | JNull
  | JBoolean bool
  | JNumber string
  | JString string
  | JArray "js_value list"
  | JObject "(string \<times> js_value) list"

text \<open>
  What the program throws: a \<^verbatim>\<open>TypeError\<close> of the host language, the
  \<^verbatim>\<open>SyntaxError\<close> of \<^verbatim>\<open>JSON.parse\<close>, an \<^verbatim>\<open>Error\<close> with its message,
  the \<^verbatim>\<open>ZodError\<close> of a failed \<^verbatim>\<open>parse\<close>, an error object of the generation
  client, and, since a promise may reject with any reason, a value that is no error object.
\<close>

datatype js_error =
    TypeError
  | SyntaxError
  | Error string
  | ZodError
  | GenerationFailure string
  | Thrown js_value

subsection \<open>Decimal numerals\<close>

definition digit_char :: "nat \<Rightarrow> char" where
  "digit_char d = char_of (48 + d)"

function show_nat :: "nat \<Rightarrow> string" where
  "show_nat n = (if n < 10 then [digit_char n] else show_nat (n div 10) @ [digit_char (n mod 10)])"
  by pat_completeness auto
termination
  by (relation "measure id") auto

declare show_nat.simps [simp del]

subsection \<open>Property access\<close>

text \<open>
  \<^verbatim>\<open>schema.type\<close>, \<^verbatim>\<open>schema.items\<close> and \<^verbatim>\<open>schema[key]\<close>: the own property of
  an object, \<^verbatim>\<open>undefined\<close> when there is none. The program reads only \<^verbatim>\<open>type\<close>,
  \<^verbatim>\<open>items\<close> and keys enumerated from the object itself; an array or a primitive has no
  property of the first two names. (\<^verbatim>\<open>null\<close> and \<^verbatim>\<open>undefined\<close> never reach a
  read: line 16 has thrown before.)
\<close>

fun get :: "js_value \<Rightarrow> string \<Rightarrow> js_value" where
  "get (JObject props) key = (case map_of props key of Some v \<Rightarrow> v | None \<Rightarrow> JUndefined)"
| "get _ key = JUndefined"

fun own_properties :: "js_value \<Rightarrow> (string \<times> js_value) list" where
  "own_properties (JObject props) = props"
| "own_properties _ = []"

definition own_keys :: "js_value \<Rightarrow> string list" where
  "own_keys v = map fst (own_properties v)"

text \<open>
  The method call \<^verbatim>\<open>schema.hasOwnProperty(key)\<close>. On \<^verbatim>\<open>null\<close> and
  \<^verbatim>\<open>undefined\<close> the property read throws. On an object the method is looked up on the
  object first: an own property named \<^verbatim>\<open>hasOwnProperty\<close> hides the builtin, and a JSON
  value is never callable, so the call throws. An array owns its indices and
  \<^verbatim>\<open>length\<close>, and so does a string.
\<close>

fun hasOwnProperty :: "js_value \<Rightarrow> string \<Rightarrow> js_error + bool" where
  "hasOwnProperty JUndefined key = Inl TypeError"
| "hasOwnProperty JNull key = Inl TypeError"
| "hasOwnProperty (JObject props) key =
     (if ''hasOwnProperty'' \<in> set (map fst props) then Inl TypeError
      else Inr (key \<in> set (map fst props)))"
| "hasOwnProperty (JArray xs) key =
     Inr (key = ''length'' \<or> key \<in> set (map show_nat [0..<length xs]))"
| "hasOwnProperty (JString s) key =
     Inr (key = ''length'' \<or> key \<in> set (map show_nat [0..<length s]))"
| "hasOwnProperty (JBoolean b) key = Inr False"
| "hasOwnProperty (JNumber n) key = Inr False"

fun isArray :: "js_value \<Rightarrow> bool" where
  "isArray (JArray xs) = True"
| "isArray _ = False"

fun typeof :: "js_value \<Rightarrow> string" where
  "typeof JUndefined = ''undefined''"
| "typeof JNull = ''object''"
| "typeof (JBoolean b) = ''boolean''"
| "typeof (JNumber n) = ''number''"
| "typeof (JString s) = ''string''"
| "typeof (JArray xs) = ''object''"
| "typeof (JObject props) = ''object''"

text \<open>
  The conversion to a string that a template literal applies. An object prints as
  \<^verbatim>\<open>[object Object]\<close> through the builtin \<^verbatim>\<open>toString\<close>; an own property of that
  name hides the builtin, and since neither it nor \<^verbatim>\<open>valueOf\<close> then yields a
  primitive, the conversion throws. An array joins its elements with commas, printing
  \<^verbatim>\<open>null\<close> as the empty string.
\<close>

fun join :: "string list \<Rightarrow> string" where
  "join [] = []"
| "join [s] = s"
| "join (s # t # ss) = s @ '','' @ join (t # ss)"

fun ToString :: "js_value \<Rightarrow> js_error + string"
  and ToStrings :: "js_value list \<Rightarrow> js_error + string list" where
  "ToString JUndefined = Inr ''undefined''"
| "ToString JNull = Inr ''null''"
| "ToString (JBoolean b) = Inr (if b then ''true'' else ''false'')"
| "ToString (JNumber n) = Inr n"
| "ToString (JString s) = Inr s"
| "ToString (JArray xs) = (case ToStrings xs of Inl e \<Rightarrow> Inl e | Inr ss \<Rightarrow> Inr (join ss))"
| "ToString (JObject props) =
     (if ''toString'' \<in> set (map fst props) then Inl TypeError
      else Inr ''[object Object]'')"
| "ToStrings [] = Inr []"
| "ToStrings (x # xs) =
     (case (if x = JNull \<or> x = JUndefined then Inr [] else ToString x) of
        Inl e \<Rightarrow> Inl e
      | Inr s \<Rightarrow> (case ToStrings xs of Inl e \<Rightarrow> Inl e | Inr ss \<Rightarrow> Inr (s # ss)))"

section \<open>Validators\<close>

text \<open>
  The validators of the zod library that the program builds: \<^verbatim>\<open>z.string()\<close>,
  \<^verbatim>\<open>z.number()\<close>, \<^verbatim>\<open>z.boolean()\<close>, \<^verbatim>\<open>z.array(t)\<close>, \<^verbatim>\<open>z.object(shape)\<close>
  (which strips unknown keys) and its \<^verbatim>\<open>.passthrough()\<close> variant (which keeps them), and
  \<^verbatim>\<open>t.nullable()\<close>.
\<close>

datatype unknown_keys = Strip | Passthrough

datatype zod =
    ZodString
  | ZodNumber
  | ZodBoolean
  | ZodArray zod
  | ZodObject "(string \<times> zod) list" unknown_keys
  | ZodNullable zod

text \<open>
  \<^verbatim>\<open>safeParse\<close>: the parsed value, or \<open>None\<close> where the library reports issues. A
  primitive validator accepts the values of its type; \<^verbatim>\<open>nullable\<close> accepts
  \<^verbatim>\<open>null\<close> and otherwise asks the inner validator; an array validator parses every
  element; an object validator accepts an object that is not an array, parses the value read
  at each key of the shape (\<^verbatim>\<open>undefined\<close> for a missing key, or a method of the
  prototype, neither of which any of these validators accepts) and returns the parsed values under the keys of the shape, followed in
  passthrough mode by the other properties of the input. The library never writes a key
  \<^verbatim>\<open>__proto__\<close> into its result.
\<close>

fun safeParse :: "zod \<Rightarrow> js_value \<Rightarrow> js_value option" where
  "safeParse ZodString x = (case x of JString s \<Rightarrow> Some x | _ \<Rightarrow> None)"
| "safeParse ZodNumber x = (case x of JNumber n \<Rightarrow> Some x | _ \<Rightarrow> None)"
| "safeParse ZodBoolean x = (case x of JBoolean b \<Rightarrow> Some x | _ \<Rightarrow> None)"
| "safeParse (ZodNullable t) x = (if x = JNull then Some JNull else safeParse t x)"
| "safeParse (ZodArray t) x =
     (case x of
        JArray xs \<Rightarrow> map_option JArray (those (map (safeParse t) xs))
      | _ \<Rightarrow> None)"
| "safeParse (ZodObject shape mode) x =
     (case x of
        JObject props \<Rightarrow>
          map_option
            (\<lambda>parsed. JObject
               (filter (\<lambda>(k, v). k \<noteq> ''__proto__'')
                  (parsed @
                   (if mode = Passthrough
                    then filter (\<lambda>(k, v). k \<notin> set (map fst shape)) props else []))))
            (those (map (\<lambda>(k, t). map_option (Pair k) (safeParse t (get x k))) shape))
      | _ \<Rightarrow> None)"

definition parse :: "zod \<Rightarrow> js_value \<Rightarrow> js_error + js_value" where
  "parse t x = (case safeParse t x of Some v \<Rightarrow> Inr v | None \<Rightarrow> Inl ZodError)"

section \<open>The schema translator\<close>

text \<open>
  \<^verbatim>\<open>determineSchemaType\<close> (lines 15 to 24). Its declared result type is a string, but it
  returns \<^verbatim>\<open>schema.type\<close> as it is, so the result is a value.
\<close>

definition determineSchemaType :: "js_value \<Rightarrow> js_error + js_value" where
  "determineSchemaType schema =
     (case hasOwnProperty schema ''type'' of
        Inl e \<Rightarrow> Inl e
      | Inr own \<Rightarrow>
          if \<not> own then
            (if isArray schema then Inr (JString ''array'') else Inr (JString (typeof schema)))
          else Inr (get schema ''type''))"

text \<open>
  The object \<^verbatim>\<open>shape\<close> of lines 39 to 43: its own properties and, once it has been
  replaced, its prototype. The assignment \<^verbatim>\<open>shape[key] = v\<close> with the key
  \<^verbatim>\<open>__proto__\<close> runs the inherited setter: it makes the validator \<^verbatim>\<open>v\<close> the
  prototype and gives \<^verbatim>\<open>shape\<close> no own property. From then on \<^verbatim>\<open>shape\<close>
  inherits the accessors of that validator, and an assignment to a key that is inherited with
  a getter and no setter throws (the module is in strict mode). Every other assignment
  replaces or appends the own property. The accessors are those of the classes of the library:
  \<^verbatim>\<open>description\<close> for every validator, \<^verbatim>\<open>shape\<close> for an object validator and
  \<^verbatim>\<open>element\<close> for an array validator. The translator returns, and so assigns, nullable and
  object validators only; a bare string, number or boolean validator is never a prototype and
  is listed with the accessor of the base class. \<^verbatim>\<open>z.object(shape)\<close> takes the own
  properties.
\<close>

type_synonym shape = "(string \<times> zod) list \<times> zod option"

fun getter_only :: "zod \<Rightarrow> string list" where
  "getter_only (ZodObject shape mode) = [''description'', ''shape'']"
| "getter_only (ZodArray t) = [''description'', ''element'']"
| "getter_only _ = [''description'']"

definition assign :: "shape \<Rightarrow> string \<Rightarrow> zod \<Rightarrow> js_error + shape" where
  "assign shape key v =
     (case shape of
        (own, prototype) \<Rightarrow>
          if key = ''__proto__'' then Inr (own, Some v)
          else if key \<notin> set (map fst own) \<and>
                  (case prototype of Some p \<Rightarrow> key \<in> set (getter_only p) | None \<Rightarrow> False)
          then Inl TypeError
          else Inr (AList.update key v own, prototype))"

lemma size_map_of:
  "map_of props key = Some v \<Longrightarrow> size v < size_list (size_prod (\<lambda>x. 0) size) props"
  by (induction props) (auto split: if_splits)

lemma size_get:
  "size (get (JObject props) key) < Suc (size_list (size_prod (\<lambda>x. 0) size) props)"
  by (auto split: option.splits dest: size_map_of)

lemma size_in_props:
  "(k, v) \<in> set props \<Longrightarrow> size v < Suc (size_list (size_prod (\<lambda>x. 0) size) props)"
  by (induction props) auto

lemma determineSchemaType_array:
  "determineSchemaType schema = Inr (JString ''array'') \<Longrightarrow>
     size (get schema key) < size schema"
  by (cases schema)
     (auto simp: determineSchemaType_def size_get simp del: get.simps(1)
           split: sum.splits if_splits option.splits)

lemma determineSchemaType_object:
  "determineSchemaType schema = Inr (JString ''object'') \<Longrightarrow>
     schema = JObject (own_properties schema)"
  by (cases schema) (auto simp: determineSchemaType_def split: sum.splits if_splits option.splits)

text \<open>
  \<^verbatim>\<open>jsonSchemaToZod\<close> (lines 27 to 47). The \<^verbatim>\<open>switch\<close> compares with strict
  equality, so only the five strings select a case. \<^verbatim>\<open>for_in\<close> is the loop of lines 40
  to 42 over the own properties of \<^verbatim>\<open>schema\<close>, \<^verbatim>\<open>value\<close> being
  \<^verbatim>\<open>schema[key]\<close>; an exception of a recursive call or of the assignment leaves the
  loop.
\<close>

function jsonSchemaToZod :: "js_value \<Rightarrow> js_error + zod"
  and for_in :: "(string \<times> js_value) list \<Rightarrow> shape \<Rightarrow> js_error + shape" where
  "jsonSchemaToZod schema =
     (case determineSchemaType schema of
        Inl e \<Rightarrow> Inl e
      | Inr type \<Rightarrow>
          if type = JString ''string'' then Inr (ZodNullable ZodString)
          else if type = JString ''number'' then Inr (ZodNullable ZodNumber)
          else if type = JString ''boolean'' then Inr (ZodNullable ZodBoolean)
          else if type = JString ''array'' then
            (case jsonSchemaToZod (get schema ''items'') of
               Inl e \<Rightarrow> Inl e
             | Inr items \<Rightarrow> Inr (ZodNullable (ZodArray items)))
          else if type = JString ''object'' then
            (case for_in (own_properties schema) ([], None) of
               Inl e \<Rightarrow> Inl e
             | Inr shape \<Rightarrow> Inr (ZodObject (fst shape) Strip))
          else
            (case ToString type of
               Inl e \<Rightarrow> Inl e
             | Inr s \<Rightarrow> Inl (Error (''Unsupported schema type: '' @ s))))"
| "for_in [] shape = Inr shape"
| "for_in ((key, value) # rest) shape =
     (case jsonSchemaToZod value of
        Inl e \<Rightarrow> Inl e
      | Inr v \<Rightarrow>
          (case assign shape key v of
             Inl e \<Rightarrow> Inl e
           | Inr shape' \<Rightarrow> for_in rest shape'))"
  by pat_completeness auto
termination
proof (relation "measure (\<lambda>x. case x of
          Inl schema \<Rightarrow> 2 * size schema
        | Inr (props, shape) \<Rightarrow> 2 * size_list (size_prod (\<lambda>x. 0) size) props + 1)")
  show "wf (measure (\<lambda>x. case x of
          Inl schema \<Rightarrow> 2 * size schema
        | Inr (props, shape) \<Rightarrow> 2 * size_list (size_prod (\<lambda>x. 0) size) props + 1))"
    by simp
next
  fix schema type
  assume "determineSchemaType schema = Inr type" "type = JString ''array''"
  then have "size (get schema ''items'') < size schema"
    using determineSchemaType_array by blast
  then show "(Inl (get schema ''items''), Inl schema) \<in> measure (\<lambda>x. case x of
          Inl schema \<Rightarrow> 2 * size schema
        | Inr (props, shape) \<Rightarrow> 2 * size_list (size_prod (\<lambda>x. 0) size) props + 1)"
    by simp
next
  fix schema type
  assume "determineSchemaType schema = Inr type" "type = JString ''object''"
  then obtain props where "schema = JObject props"
    using determineSchemaType_object by blast
  then have "size schema = size_list (size_prod (\<lambda>x. 0) size) (own_properties schema) + 1"
    by simp
  then show "(Inr (own_properties schema, [], None), Inl schema) \<in> measure (\<lambda>x. case x of
          Inl schema \<Rightarrow> 2 * size schema
        | Inr (props, shape) \<Rightarrow> 2 * size_list (size_prod (\<lambda>x. 0) size) props + 1)"
    by simp
qed auto

declare jsonSchemaToZod.simps [simp del]

section \<open>The retry executor\<close>

text \<open>
  The budget \<^verbatim>\<open>retries: number\<close> is a double. The executor only tests
  \<^verbatim>\<open>retries > 0\<close> and, when the test holds, computes \<^verbatim>\<open>retries - 1\<close>. So a budget
  is kept as a positive finite double, by its value; as positive infinity; or as a number that
  is not positive (zero, a negative number, \<^verbatim>\<open>NaN\<close>), on which the test fails whatever
  its value.
\<close>

datatype number = Positive rat | PosInfinity | NotPositive

definition number_of :: "rat \<Rightarrow> number" where
  "number_of x = (if 0 < x then Positive x else NotPositive)"

fun greater_zero :: "number \<Rightarrow> bool" where
  "greater_zero (Positive x) = (0 < x)"
| "greater_zero PosInfinity = True"
| "greater_zero NotPositive = False"

text \<open>
  \<^verbatim>\<open>retries - 1\<close> in double arithmetic, rounding to nearest, ties to even. Up to
  \<open>2\<^sup>5\<^sup>3\<close> the difference of a double and 1 is a double, unless the budget is below 1, where
  the result is at most 0 in any case. From \<open>2\<^sup>5\<^sup>3\<close> to \<open>2\<^sup>5\<^sup>4\<close> the doubles are the even
  integers and the difference is a tie between the two neighbours, resolved to the one with the
  even significand; from \<open>2\<^sup>5\<^sup>4\<close> on, and for infinity, the result is the budget itself.
\<close>

fun minus_one :: "number \<Rightarrow> number" where
  "minus_one (Positive x) =
     (if x \<le> 1 then NotPositive
      else if x \<le> 2 ^ 53 then Positive (x - 1)
      else if x < 2 ^ 54 \<and> odd \<lfloor>x / 2\<rfloor> then Positive (x - 2)
      else Positive x)"
| "minus_one PosInfinity = PosInfinity"
| "minus_one NotPositive = NotPositive"

text \<open>
  The conversion \<^verbatim>\<open>${error}\<close> of line 61. An error object prints its name and
  message; any other reason is converted as a value, which may throw. The text is only logged,
  so of the conversion only the exception it may throw is kept.
\<close>

fun template_throws :: "js_error \<Rightarrow> js_error option" where
  "template_throws (Thrown v) = (case ToString v of Inl e \<Rightarrow> Some e | Inr text \<Rightarrow> None)"
| "template_throws _ = None"

text \<open>
  \<^verbatim>\<open>RetryablePromise.retry\<close> (lines 55 to 67). The executor is run by the promise
  constructor and settles the promise: it is a step on the state of the world that yields the
  value it resolves with (\<open>Inr\<close>) or the reason it rejects with (\<open>Inl\<close>). The
  handler of \<^verbatim>\<open>catch\<close> runs on a rejection only: it logs the reason (the log is not part
  of the state, but an exception of line 61 rejects the promise), then retries or rejects with
  the reason. With a budget that never decreases the retrying need not end, so the result is
  optional: \<open>None\<close> stands for a promise that never settles.
\<close>

type_synonym ('s, 'a) executor = "'s \<Rightarrow> (js_error + 'a) \<times> 's"

partial_function (option) retry ::
  "number \<Rightarrow> ('s, 'a) executor \<Rightarrow> 's \<Rightarrow> ((js_error + 'a) \<times> 's) option" where
  "retry retries executor s =
     (case executor s of
        (Inr v, s') \<Rightarrow> Some (Inr v, s')
      | (Inl error, s') \<Rightarrow>
          (case template_throws error of
             Some e \<Rightarrow> Some (Inl e, s')
           | None \<Rightarrow>
               if greater_zero retries then retry (minus_one retries) executor s'
               else Some (Inl error, s')))"

declare retry.simps [code]

text \<open>
  An executor instrumented with a counter of its invocations, to state how often
  \<^verbatim>\<open>retry\<close> runs it.
\<close>

definition counting :: "('s, 'a) executor \<Rightarrow> ('s \<times> nat, 'a) executor" where
  "counting executor = (\<lambda>(s, n). case executor s of (r, s') \<Rightarrow> (r, (s', Suc n)))"

definition state_after :: "nat \<Rightarrow> ('s, 'a) executor \<Rightarrow> 's \<Rightarrow> 's" where
  "state_after i executor s = ((\<lambda>s. snd (executor s)) ^^ i) s"

definition outcome :: "nat \<Rightarrow> ('s, 'a) executor \<Rightarrow> 's \<Rightarrow> js_error + 'a" where
  "outcome i executor s = fst (executor (state_after i executor s))"

text \<open>
  \<open>state_after i\<close> is the state of the world after \<open>i\<close> invocations in a row, and
  \<open>outcome i\<close> is how invocation number \<open>i + 1\<close> settles.
\<close>

section \<open>The request handler\<close>

text \<open>
  The route \<^verbatim>\<open>POST /\<close> (lines 70 to 186). The generation client receives the prompt,
  a fixed template around the input text and the serialised \<^verbatim>\<open>format\<close>, so the prompt
  is kept as that pair; the client answers with a text or fails, and may change the state of the
  world. \<^verbatim>\<open>JSON.parse\<close> is a parameter. \<^verbatim>\<open>attempt\<close> is the executor of lines 83
  to 182: everything thrown inside it is caught and rejects the promise.
\<close>

type_synonym prompt = "js_value \<times> js_value"

definition inputSchema :: zod where
  "inputSchema =
     ZodObject [(''input'', ZodString), (''format'', ZodObject [] Passthrough)] Strip"

definition attempt ::
  "(string \<Rightarrow> js_error + js_value) \<Rightarrow> (prompt \<Rightarrow> ('s, string) executor) \<Rightarrow>
   js_value \<Rightarrow> js_value \<Rightarrow> zod \<Rightarrow> ('s, js_value) executor" where
  "attempt JSON_parse generateContent input format generatedSchema s =
     (case generateContent (input, format) s of
        (Inl err, s') \<Rightarrow> (Inl err, s')
      | (Inr text, s') \<Rightarrow>
          (case JSON_parse text of
             Inl err \<Rightarrow> (Inl err, s')
           | Inr v \<Rightarrow> (parse generatedSchema v, s')))"

definition handler ::
  "(string \<Rightarrow> js_error + js_value) \<Rightarrow> (prompt \<Rightarrow> ('s, string) executor) \<Rightarrow>
   js_error + js_value \<Rightarrow> 's \<Rightarrow> ((js_error + js_value) \<times> 's) option" where
  "handler JSON_parse generateContent req_json s =
     (case req_json of
        Inl err \<Rightarrow> Some (Inl err, s)
      | Inr body \<Rightarrow>
          (case parse inputSchema body of
             Inl err \<Rightarrow> Some (Inl err, s)
           | Inr parsed \<Rightarrow>
               (case jsonSchemaToZod (get parsed ''format'') of
                  Inl err \<Rightarrow> Some (Inl err, s)
                | Inr generatedSchema \<Rightarrow>
                    retry (number_of 3)
                      (attempt JSON_parse generateContent (get parsed ''input'')
                         (get parsed ''format'') generatedSchema) s)))"

section \<open>The specification's notions\<close>

fun is_string :: "js_value \<Rightarrow> bool" where
  "is_string (JString s) = True"
| "is_string _ = False"

fun is_number :: "js_value \<Rightarrow> bool" where
  "is_number (JNumber n) = True"
| "is_number _ = False"

fun is_boolean :: "js_value \<Rightarrow> bool" where
  "is_boolean (JBoolean b) = True"
| "is_boolean _ = False"

fun is_object :: "js_value \<Rightarrow> bool" where
  "is_object (JObject props) = True"
| "is_object _ = False"

text \<open>
  The shape the request body must have: \<^verbatim>\<open>input\<close> a string and \<^verbatim>\<open>format\<close> an
  object.
\<close>

definition shape_check :: "js_value \<Rightarrow> bool" where
  "shape_check body \<longleftrightarrow> is_string (get body ''input'') \<and> is_object (get body ''format'')"

text \<open>
  The schema trees of the specification: a primitive marker, an array marker with its
  \<^verbatim>\<open>items\<close>, or an implicit object, a mapping without a \<^verbatim>\<open>type\<close> key whose
  fields are schema trees.
\<close>

function SchemaNode :: "js_value \<Rightarrow> bool" where
  "SchemaNode (JObject props) =
     (case map_of props ''type'' of
        Some t \<Rightarrow>
          t = JString ''string'' \<or> t = JString ''number'' \<or> t = JString ''boolean'' \<or>
          (t = JString ''array'' \<and> SchemaNode (get (JObject props) ''items''))
      | None \<Rightarrow> (\<forall>(k, v) \<in> set props. SchemaNode v))"
| "SchemaNode JUndefined = False"
| "SchemaNode JNull = False"
| "SchemaNode (JBoolean b) = False"
| "SchemaNode (JNumber n) = False"
| "SchemaNode (JString s) = False"
| "SchemaNode (JArray xs) = False"
  by pat_completeness auto
termination
  by (relation "measure size") (auto simp: size_in_props size_get simp del: get.simps)

text \<open>
  The values the specification lets the validator of a schema tree accept: at a primitive leaf
  a value of that type or \<^verbatim>\<open>null\<close>; at an array node an array of values accepted for
  the items, or \<^verbatim>\<open>null\<close>; at an object node an object that has every declared key, with
  a value accepted for that field.
\<close>

function spec_accepts :: "js_value \<Rightarrow> js_value \<Rightarrow> bool" where
  "spec_accepts (JObject props) x =
     (case map_of props ''type'' of
        Some t \<Rightarrow>
          if t = JString ''string'' then is_string x \<or> x = JNull
          else if t = JString ''number'' then is_number x \<or> x = JNull
          else if t = JString ''boolean'' then is_boolean x \<or> x = JNull
          else if t = JString ''array'' then
            (case x of
               JArray xs \<Rightarrow> (\<forall>y \<in> set xs. spec_accepts (get (JObject props) ''items'') y)
             | _ \<Rightarrow> x = JNull)
          else False
      | None \<Rightarrow>
          is_object x \<and>
          (\<forall>(k, v) \<in> set props. k \<in> set (own_keys x) \<and> spec_accepts v (get x k)))"
| "spec_accepts JUndefined x = False"
| "spec_accepts JNull x = False"
| "spec_accepts (JBoolean b) x = False"
| "spec_accepts (JNumber n) x = False"
| "spec_accepts (JString s) x = False"
| "spec_accepts (JArray xs) x = False"
  by pat_completeness auto
termination
  by (relation "measure (\<lambda>(schema, x). size schema)")
     (auto simp: size_in_props size_get simp del: get.simps)

text \<open>
  A validator accepts a value when parsing it succeeds.
\<close>

definition accepts :: "zod \<Rightarrow> js_value \<Rightarrow> bool" where
  "accepts t x \<longleftrightarrow> safeParse t x \<noteq> None"

text \<open>
  The trees on which property access by name behaves as lookup in the mapping: no node has a
  field named \<^verbatim>\<open>hasOwnProperty\<close>, and no implicit object has a field named
  \<^verbatim>\<open>__proto__\<close> (each key occurring once in the property list).
\<close>

function plain_fields :: "js_value \<Rightarrow> bool" where
  "plain_fields (JObject props) =
     (''hasOwnProperty'' \<notin> set (map fst props) \<and>
      (case map_of props ''type'' of
         Some t \<Rightarrow> t \<noteq> JString ''array'' \<or> plain_fields (get (JObject props) ''items'')
       | None \<Rightarrow>
           ''__proto__'' \<notin> set (map fst props) \<and> distinct (map fst props) \<and>
           (\<forall>(k, v) \<in> set props. plain_fields v)))"
| "plain_fields JUndefined = True"
| "plain_fields JNull = True"
| "plain_fields (JBoolean b) = True"
| "plain_fields (JNumber n) = True"
| "plain_fields (JString s) = True"
| "plain_fields (JArray xs) = True"
  by pat_completeness auto
termination
  by (relation "measure size") (auto simp: size_in_props size_get simp del: get.simps)



text \<open>
  An outcome is printable when line 61 can log it: it is a value, or a reason whose conversion
  to a string does not throw.
\<close>

definition printable :: "js_error + 'a \<Rightarrow> bool" where
  "printable r = (case r of Inl error \<Rightarrow> template_throws error = None | Inr v \<Rightarrow> True)"

section \<open>Properties of the retry executor\<close>

lemma retry_counting_resolved:
  "fst (executor s) = Inr v \<Longrightarrow>
     retry retries (counting executor) (s, c) = Some (Inr v, snd (executor s), Suc c)"
  by (subst retry.simps) (auto simp: counting_def split: prod.splits)


lemma retry_counting_again:
  "fst (executor s) = Inl error \<Longrightarrow> template_throws error = None \<Longrightarrow>
   greater_zero retries \<Longrightarrow>
     retry retries (counting executor) (s, c) =
     retry (minus_one retries) (counting executor) (snd (executor s), Suc c)"
  by (subst retry.simps) (auto simp: counting_def split: prod.splits)

lemma retry_counting_exhausted:
  "fst (executor s) = Inl error \<Longrightarrow> template_throws error = None \<Longrightarrow>
   \<not> greater_zero retries \<Longrightarrow>
     retry retries (counting executor) (s, c) = Some (Inl error, snd (executor s), Suc c)"
  by (subst retry.simps) (auto simp: counting_def split: prod.splits)

lemma state_after_Suc:
  "state_after (Suc i) executor s = snd (executor (state_after i executor s))"
  by (simp add: state_after_def)

lemma state_after_0: "state_after 0 executor s = s"
  by (simp add: state_after_def)

lemma retry_from:
  assumes "printable (outcome i executor s)"
  shows "retry retries (counting executor) (state_after i executor s, c) =
   (if isl (outcome i executor s) \<and> greater_zero retries
    then retry (minus_one retries) (counting executor) (state_after (Suc i) executor s, Suc c)
    else Some (outcome i executor s, state_after (Suc i) executor s, Suc c))"
  using assms unfolding outcome_def state_after_Suc printable_def
  by (cases "fst (executor (state_after i executor s))")
     (simp_all add: retry_counting_resolved retry_counting_again retry_counting_exhausted)

lemma minus_one_3: "minus_one (number_of 3) = number_of 2" "minus_one (number_of 2) = number_of 1"
  "minus_one (number_of 1) = NotPositive" "greater_zero (number_of 3)" "greater_zero (number_of 2)"
  "greater_zero (number_of 1)"
  by (simp_all add: number_of_def)

lemma retry_always_failing_printable:
  assumes "\<forall>i. isl (outcome i executor s) \<and> printable (outcome i executor s)"
  shows "retry (number_of 3) (counting executor) (s, 0) =
           Some (outcome 3 executor s, state_after 4 executor s, 4)"
proof -
  have "retry (number_of 3) (counting executor) (state_after 0 executor s, 0) =
           Some (outcome 3 executor s, state_after 4 executor s, 4)"
    using assms by (simp add: retry_from minus_one_3 eval_nat_numeral)
  then show ?thesis by (simp add: state_after_0)
qed

lemma retry_third_succeeds_printable:
  assumes "isl (outcome 0 executor s)" "printable (outcome 0 executor s)"
    and "isl (outcome 1 executor s)" "printable (outcome 1 executor s)"
    and "outcome 2 executor s = Inr v"
  shows "retry (number_of 3) (counting executor) (s, 0) = Some (Inr v, state_after 3 executor s, 3)"
proof -
  have "printable (outcome 2 executor s)"
    using assms(5) by (simp add: printable_def)
  then have "retry (number_of 3) (counting executor) (state_after 0 executor s, 0) =
           Some (Inr v, state_after 3 executor s, 3)"
    using assms by (simp add: retry_from minus_one_3 eval_nat_numeral)
  then show ?thesis by (simp add: state_after_0)
qed








section \<open>Properties of the schema translator\<close>

lemma get_absent: "key \<notin> set (own_keys schema) \<Longrightarrow> get schema key = JUndefined"
proof (cases schema)
  case (JObject props)
  assume "key \<notin> set (own_keys schema)"
  with JObject have "map_of props key = None"
    by (simp add: own_keys_def map_of_eq_None_iff)
  with JObject show ?thesis by simp
qed simp_all

lemma hasOwnProperty_absent:
  assumes "''hasOwnProperty'' \<notin> set (own_keys (JObject props))"
  shows "hasOwnProperty (JObject props) key = Inr (key \<in> set (own_keys (JObject props)))"
  using assms by (simp add: own_keys_def)

lemma digit_char_not_e: "digit_char (n mod 10) \<noteq> CHR ''e''"
proof
  assume "digit_char (n mod 10) = CHR ''e''"
  then have "(of_char (char_of (48 + n mod 10)) :: nat) = of_char CHR ''e''"
    by (simp add: digit_char_def)
  then have "(48 + n mod 10) mod 256 = (101 :: nat)"
    by simp
  moreover have "n mod 10 < 10" by simp
  ultimately show False
    by (simp add: mod_if split: if_splits)
qed

lemma show_nat_not_type: "show_nat n \<noteq> ''type''"
proof
  assume a: "show_nat n = ''type''"
  have "last (show_nat n) = digit_char (n mod 10)"
    by (subst show_nat.simps) simp
  with a show False
    using digit_char_not_e [of n] by simp
qed

lemma hasOwnProperty_type_JArray: "hasOwnProperty (JArray xs) ''type'' = Inr False"
proof -
  have "''type'' \<notin> show_nat ` {0..<length xs}"
    using show_nat_not_type by (metis imageE)
  then show ?thesis by simp
qed

lemma hasOwnProperty_type_JString: "hasOwnProperty (JString s) ''type'' = Inr False"
proof -
  have "''type'' \<notin> show_nat ` {0..<length s}"
    using show_nat_not_type by (metis imageE)
  then show ?thesis by simp
qed

text \<open>
  C3, as the specification states it: a node without a \<^verbatim>\<open>type\<close> key is classified as
  an object unless it is an array. The code returns \<^verbatim>\<open>typeof schema\<close> (line 20), so
  a string node, such as the field value in \<^verbatim>\<open>{"name": "text"}\<close>, has no
  \<^verbatim>\<open>type\<close> key, is no array, and is classified as a string.
\<close>

theorem determineSchemaType_string_node:
  "''type'' \<notin> set (own_keys (JString ''text'')) \<and> \<not> isArray (JString ''text'') \<and>
   determineSchemaType (JString ''text'') = Inr (JString ''string'') \<and>
   determineSchemaType (JString ''text'') \<noteq> Inr (JString ''object'')"
  by (simp add: determineSchemaType_def own_keys_def hasOwnProperty_type_JString
           del: hasOwnProperty.simps)

text \<open>
  C3, amended: a node that has no \<^verbatim>\<open>type\<close> key, is neither \<^verbatim>\<open>null\<close> nor
  \<^verbatim>\<open>undefined\<close>, and has no own key named \<^verbatim>\<open>hasOwnProperty\<close> is classified as
  an array, with no \<^verbatim>\<open>items\<close>, when it is an array, and otherwise by its host type: an
  object for a mapping, and string, number or boolean for a primitive value.
\<close>

theorem determineSchemaType_without_type:
  assumes "''type'' \<notin> set (own_keys schema)" "''hasOwnProperty'' \<notin> set (own_keys schema)"
    and "schema \<noteq> JNull" "schema \<noteq> JUndefined"
  shows "determineSchemaType schema =
           Inr (JString (case schema of
                           JArray xs \<Rightarrow> ''array''
                         | JObject props \<Rightarrow> ''object''
                         | _ \<Rightarrow> typeof schema)) \<and>
         (if isArray schema then get schema ''items'' = JUndefined
          else typeof schema \<in> {''object'', ''string'', ''number'', ''boolean''})"
proof (cases schema)
  case (JObject props)
  then show ?thesis
    using assms hasOwnProperty_absent [of props "''type''"]
    by (simp add: determineSchemaType_def)
next
  case (JArray xs)
  then show ?thesis
    by (simp add: determineSchemaType_def hasOwnProperty_type_JArray del: hasOwnProperty.simps)
next
  case (JString s)
  then show ?thesis
    by (simp add: determineSchemaType_def hasOwnProperty_type_JString del: hasOwnProperty.simps)
qed (use assms in \<open>simp_all add: determineSchemaType_def\<close>)

theorem determineSchemaType_without_type_witness:
  "''type'' \<notin> set (own_keys (JObject [(''name'', JObject [(''type'', JString ''string'')])])) \<and>
   determineSchemaType (JObject [(''name'', JObject [(''type'', JString ''string'')])]) =
     Inr (JString ''object'') \<and>
   determineSchemaType (JArray []) = Inr (JString ''array'') \<and>
   get (JArray []) ''items'' = JUndefined \<and>
   determineSchemaType (JNumber ''7'') = Inr (JString ''number'')"
  using determineSchemaType_without_type
      [of "JObject [(''name'', JObject [(''type'', JString ''string'')])]"]
    determineSchemaType_without_type [of "JArray []"]
    determineSchemaType_without_type [of "JNumber ''7''"]
  by (simp add: own_keys_def)

lemma unsupported_type_value:
  assumes "''hasOwnProperty'' \<notin> set (map fst props)"
    and "map_of props ''type'' = Some (JString t)"
    and "t \<notin> {''string'', ''number'', ''boolean'', ''array'', ''object''}"
  shows "jsonSchemaToZod (JObject props) = Inl (Error (''Unsupported schema type: '' @ t))"
proof -
  have "determineSchemaType (JObject props) = Inr (JString t)"
    using assms(1,2) by (auto simp: determineSchemaType_def map_of_eq_None_iff [symmetric])
  with assms(3) show ?thesis
    by (subst jsonSchemaToZod.simps) simp
qed

text \<open>
  C6. The node \<^verbatim>\<open>{"type": "unknown", "hasOwnProperty": 1}\<close> has a type outside string,
  number, boolean, array and object, and \<^verbatim>\<open>jsonSchemaToZod\<close> does not throw the error
  that names the type: the method call of line 16 finds the field instead of the builtin and
  throws a \<^verbatim>\<open>TypeError\<close>. (Without such a field the error is thrown, as
  \<open>unsupported_type_value\<close> shows.)
\<close>

theorem unsupported_type_not_reported:
  "get (JObject [(''type'', JString ''unknown''), (''hasOwnProperty'', JNumber ''1'')]) ''type'' =
     JString ''unknown'' \<and>
   ''unknown'' \<notin> {''string'', ''number'', ''boolean'', ''array'', ''object''} \<and>
   jsonSchemaToZod (JObject [(''type'', JString ''unknown''), (''hasOwnProperty'', JNumber ''1'')]) =
     Inl TypeError \<and>
   jsonSchemaToZod (JObject [(''type'', JString ''unknown'')]) =
     Inl (Error ''Unsupported schema type: unknown'')"
  by (simp add: jsonSchemaToZod.simps determineSchemaType_def)

text \<open>
  C10. A node classified as an array that has no \<^verbatim>\<open>items\<close>, be it
  \<^verbatim>\<open>{"type": "array"}\<close> or an array value, makes \<^verbatim>\<open>jsonSchemaToZod\<close> throw a
  \<^verbatim>\<open>TypeError\<close>: the recursive call reads a property of \<^verbatim>\<open>undefined\<close>.
\<close>

theorem array_without_items_TypeError:
  assumes "determineSchemaType schema = Inr (JString ''array'')"
    and "''items'' \<notin> set (own_keys schema)"
  shows "jsonSchemaToZod schema = Inl TypeError"
proof -
  have "get schema ''items'' = JUndefined"
    using assms(2) by (rule get_absent)
  moreover have "jsonSchemaToZod JUndefined = Inl TypeError"
    by (simp add: jsonSchemaToZod.simps determineSchemaType_def)
  ultimately show ?thesis
    using assms(1) by (subst jsonSchemaToZod.simps) simp
qed

theorem array_without_items_TypeError_witness:
  "determineSchemaType (JObject [(''type'', JString ''array'')]) = Inr (JString ''array'') \<and>
   ''items'' \<notin> set (own_keys (JObject [(''type'', JString ''array'')])) \<and>
   jsonSchemaToZod (JObject [(''type'', JString ''array'')]) = Inl TypeError \<and>
   determineSchemaType (JArray []) = Inr (JString ''array'') \<and>
   jsonSchemaToZod (JArray []) = Inl TypeError"
  using array_without_items_TypeError [of "JObject [(''type'', JString ''array'')]"]
    array_without_items_TypeError [of "JArray []"]
  by (simp add: determineSchemaType_def own_keys_def)

text \<open>
  C8. The tree \<^verbatim>\<open>{"hasOwnProperty": {"type": "string"}}\<close> is an implicit object with
  one string field, and \<^verbatim>\<open>jsonSchemaToZod\<close> throws on it: the method call of line 16
  finds the field instead of the builtin.
\<close>

theorem jsonSchemaToZod_throws_on_valid_tree:
  "SchemaNode (JObject [(''hasOwnProperty'', JObject [(''type'', JString ''string'')])]) \<and>
   jsonSchemaToZod (JObject [(''hasOwnProperty'', JObject [(''type'', JString ''string'')])]) =
     Inl TypeError"
  by (simp add: jsonSchemaToZod.simps determineSchemaType_def)

text \<open>
  C1. For the tree with a string field \<^verbatim>\<open>name\<close> and a boolean field
  \<^verbatim>\<open>hasOwnProperty\<close> the specification accepts
  \<^verbatim>\<open>{"name": "John", "hasOwnProperty": true}\<close>, and \<^verbatim>\<open>jsonSchemaToZod\<close>
  produces no validator: it throws.
\<close>

theorem jsonSchemaToZod_no_validator:
  "SchemaNode (JObject [(''name'', JObject [(''type'', JString ''string'')]),
                        (''hasOwnProperty'', JObject [(''type'', JString ''boolean'')])]) \<and>
   spec_accepts (JObject [(''name'', JObject [(''type'', JString ''string'')]),
                          (''hasOwnProperty'', JObject [(''type'', JString ''boolean'')])])
     (JObject [(''name'', JString ''John''), (''hasOwnProperty'', JBoolean True)]) \<and>
   jsonSchemaToZod (JObject [(''name'', JObject [(''type'', JString ''string'')]),
                             (''hasOwnProperty'', JObject [(''type'', JString ''boolean'')])]) =
     Inl TypeError"
  by (simp add: jsonSchemaToZod.simps determineSchemaType_def own_keys_def)

section \<open>Translation of trees with plain field names\<close>

text \<open>
  Away from the two field names the translator does what the specification says: it returns
  a validator for every schema tree, and the validator accepts exactly the values the
  specification lets it accept.
\<close>

lemma update_fresh: "key \<notin> set (map fst shape) \<Longrightarrow> AList.update key v shape = shape @ [(key, v)]"
  by (induction shape) auto

lemma for_in_all:
  assumes "distinct (map fst props)" "''__proto__'' \<notin> set (map fst props)"
    and "set (map fst props) \<inter> set (map fst shape0) = {}"
    and "\<forall>(k, v) \<in> set props. \<exists>z. jsonSchemaToZod v = Inr z"
  shows "\<exists>zs. for_in props (shape0, None) = Inr (shape0 @ zs, None) \<and>
              list_all2 (\<lambda>(k, v) (k', z). k' = k \<and> jsonSchemaToZod v = Inr z) props zs"
  using assms
proof (induction props arbitrary: shape0)
  case Nil
  then show ?case by simp
next
  case (Cons p props)
  obtain key val where p: "p = (key, val)" by (cases p)
  with Cons.prems obtain z where z: "jsonSchemaToZod val = Inr z" by auto
  have fresh: "key \<notin> set (map fst shape0)" and np: "key \<noteq> ''__proto__''"
    using Cons.prems p by auto
  then have a: "assign (shape0, None) key z = Inr (shape0 @ [(key, z)], None)"
    by (simp add: assign_def update_fresh)
  have "\<exists>zs. for_in props (shape0 @ [(key, z)], None) = Inr ((shape0 @ [(key, z)]) @ zs, None) \<and>
              list_all2 (\<lambda>(k, v) (k', z). k' = k \<and> jsonSchemaToZod v = Inr z) props zs"
    using Cons.prems p by (intro Cons.IH) auto
  then obtain zs where "for_in props (shape0 @ [(key, z)], None) = Inr (shape0 @ (key, z) # zs, None)"
    and "list_all2 (\<lambda>(k, v) (k', z). k' = k \<and> jsonSchemaToZod v = Inr z) props zs"
    by auto
  then show ?case
    using p z a by (intro exI [of _ "(key, z) # zs"]) simp
qed

lemma those_map_None: "(those (map f xs) = None) = (\<exists>x \<in> set xs. f x = None)"
  by (induction xs) (auto split: option.splits)

lemma accepts_nullable_string: "accepts (ZodNullable ZodString) x = (is_string x \<or> x = JNull)"
  by (cases x) (auto simp: accepts_def)

lemma accepts_nullable_number: "accepts (ZodNullable ZodNumber) x = (is_number x \<or> x = JNull)"
  by (cases x) (auto simp: accepts_def)

lemma accepts_nullable_boolean: "accepts (ZodNullable ZodBoolean) x = (is_boolean x \<or> x = JNull)"
  by (cases x) (auto simp: accepts_def)

lemma accepts_nullable_array:
  "accepts (ZodNullable (ZodArray t)) x =
     (case x of JArray xs \<Rightarrow> (\<forall>y \<in> set xs. accepts t y) | _ \<Rightarrow> x = JNull)"
proof (cases x)
  case (JArray xs)
  have "(those (map (safeParse t) xs) = None) = (\<exists>y \<in> set xs. safeParse t y = None)"
    by (rule those_map_None)
  with JArray show ?thesis
    by (simp add: accepts_def del: not_None_eq)
qed (simp_all add: accepts_def)

lemma accepts_object:
  "accepts (ZodObject shape Strip) x =
     (is_object x \<and> (\<forall>(k, t) \<in> set shape. accepts t (get x k)))"
proof (cases x)
  case (JObject props)
  have "(those (map (\<lambda>(k, t). map_option (Pair k) (safeParse t (get x k))) shape) = None) =
        (\<exists>(k, t) \<in> set shape. safeParse t (get x k) = None)"
    unfolding those_map_None by (auto split: prod.splits)
  with JObject show ?thesis
    by (simp add: accepts_def del: get.simps not_None_eq) (auto split: prod.splits)
qed (simp_all add: accepts_def)

lemma spec_accepts_undefined: "\<not> spec_accepts schema JUndefined"
  by (cases schema) (auto split: option.splits)

lemma determineSchemaType_typed:
  "''hasOwnProperty'' \<notin> set (map fst props) \<Longrightarrow> map_of props ''type'' = Some t \<Longrightarrow>
     determineSchemaType (JObject props) = Inr t"
  by (auto simp: determineSchemaType_def map_of_eq_None_iff [symmetric])

lemma determineSchemaType_untyped:
  "''hasOwnProperty'' \<notin> set (map fst props) \<Longrightarrow> map_of props ''type'' = None \<Longrightarrow>
     determineSchemaType (JObject props) = Inr (JString ''object'')"
  by (auto simp: determineSchemaType_def map_of_eq_None_iff [symmetric])

lemma translate_exact:
  "SchemaNode schema \<Longrightarrow> plain_fields schema \<Longrightarrow>
     \<exists>v. jsonSchemaToZod schema = Inr v \<and> (\<forall>x. accepts v x = spec_accepts schema x)"
proof (induction schema rule: measure_induct_rule [of size])
  case (less schema)
  from less.prems(1) obtain props where schema: "schema = JObject props"
    by (cases schema) simp_all
  from less.prems(2) schema have own: "''hasOwnProperty'' \<notin> set (map fst props)"
    by simp
  show ?case
  proof (cases "map_of props ''type''")
    case (Some t)
    then have type: "determineSchemaType schema = Inr t"
      using own schema by (simp add: determineSchemaType_typed)
    consider "t = JString ''string''" | "t = JString ''number''" | "t = JString ''boolean''"
      | "t = JString ''array''" "SchemaNode (get schema ''items'')"
      using less.prems(1) schema Some by (auto simp del: get.simps)
    then show ?thesis
    proof cases
      case 1
      then have "jsonSchemaToZod schema = Inr (ZodNullable ZodString)"
        using type by (subst jsonSchemaToZod.simps) simp
      then show ?thesis
        using 1 Some schema by (simp add: accepts_nullable_string)
    next
      case 2
      then have "jsonSchemaToZod schema = Inr (ZodNullable ZodNumber)"
        using type by (subst jsonSchemaToZod.simps) simp
      then show ?thesis
        using 2 Some schema by (simp add: accepts_nullable_number)
    next
      case 3
      then have "jsonSchemaToZod schema = Inr (ZodNullable ZodBoolean)"
        using type by (subst jsonSchemaToZod.simps) simp
      then show ?thesis
        using 3 Some schema by (simp add: accepts_nullable_boolean)
    next
      case 4
      have "size (get schema ''items'') < size schema"
        using schema size_get [of props "''items''"] by simp
      moreover have "plain_fields (get schema ''items'')"
        using less.prems(2) schema Some 4(1) by (simp del: get.simps)
      ultimately obtain vi where vi: "jsonSchemaToZod (get schema ''items'') = Inr vi"
        and ex: "\<forall>y. accepts vi y = spec_accepts (get schema ''items'') y"
        using less.IH 4(2) by blast
      have "jsonSchemaToZod schema = Inr (ZodNullable (ZodArray vi))"
        using type 4(1) vi by (subst jsonSchemaToZod.simps) simp
      moreover have "accepts (ZodNullable (ZodArray vi)) x = spec_accepts schema x" for x
        using ex 4(1) Some schema
        by (cases x) (simp_all add: accepts_nullable_array del: get.simps)
      ultimately show ?thesis by simp
    qed
  next
    case None
    then have type: "determineSchemaType schema = Inr (JString ''object'')"
      using own schema by (simp add: determineSchemaType_untyped)
    from less.prems schema None
    have children: "\<forall>(k, v) \<in> set props. SchemaNode v \<and> plain_fields v"
      and dist: "distinct (map fst props)" and np: "''__proto__'' \<notin> set (map fst props)"
      by auto
    have sub: "\<exists>z. jsonSchemaToZod v = Inr z \<and> (\<forall>x. accepts z x = spec_accepts v x)"
      if "(k, v) \<in> set props" for k v
    proof -
      have "size v < size schema"
        using that schema size_in_props [of k v props] by simp
      with less.IH [of v] children that show ?thesis by auto
    qed
    then have "\<forall>(k, v) \<in> set props. \<exists>z. jsonSchemaToZod v = Inr z"
      by blast
    with for_in_all [of props "[]"] dist np
    obtain zs where zs: "for_in props ([], None) = Inr (zs, None)"
      and rel: "list_all2 (\<lambda>(k, v) (k', z). k' = k \<and> jsonSchemaToZod v = Inr z) props zs"
      by auto
    have v: "jsonSchemaToZod schema = Inr (ZodObject zs Strip)"
      using type zs schema by (subst jsonSchemaToZod.simps) simp
    have "accepts (ZodObject zs Strip) x = spec_accepts schema x" for x
    proof -
      have "(\<forall>(k, t) \<in> set zs. accepts t (get x k)) =
            (\<forall>(k, v) \<in> set props. k \<in> set (own_keys x) \<and> spec_accepts v (get x k))"
        (is "?L = ?R")
      proof
        assume l: ?L
        show ?R
        proof (clarify, rule conjI)
          fix k v assume kv: "(k, v) \<in> set props"
          then obtain i where i: "i < length props" "props ! i = (k, v)"
            by (meson in_set_conv_nth)
          with rel have "(\<lambda>(k, v) (k', z). k' = k \<and> jsonSchemaToZod v = Inr z) (props ! i) (zs ! i)"
            and "i < length zs"
            by (auto simp: list_all2_conv_all_nth)
          then obtain z where z: "zs ! i = (k, z)" "jsonSchemaToZod v = Inr z"
            using i by (cases "zs ! i") auto
          with \<open>i < length zs\<close> have "(k, z) \<in> set zs" by (metis nth_mem)
          with l have "accepts z (get x k)" by auto
          moreover from sub [OF kv] z have "accepts z (get x k) = spec_accepts v (get x k)"
            by auto
          ultimately show sa: "spec_accepts v (get x k)" by simp
          show "k \<in> set (own_keys x)"
          proof (rule ccontr)
            assume "k \<notin> set (own_keys x)"
            then have "get x k = JUndefined" by (rule get_absent)
            with sa spec_accepts_undefined show False by simp
          qed
        qed
      next
        assume r: ?R
        show ?L
        proof clarify
          fix k z assume kz: "(k, z) \<in> set zs"
          then obtain i where i: "i < length zs" "zs ! i = (k, z)"
            by (meson in_set_conv_nth)
          with rel have "(\<lambda>(k, v) (k', z). k' = k \<and> jsonSchemaToZod v = Inr z) (props ! i) (zs ! i)"
            and il: "i < length props"
            by (auto simp: list_all2_conv_all_nth)
          then obtain v where v: "props ! i = (k, v)" "jsonSchemaToZod v = Inr z"
            using i by (cases "props ! i") auto
          with il have kv: "(k, v) \<in> set props" by (metis nth_mem)
          with r have "spec_accepts v (get x k)" by auto
          moreover from sub [OF kv] v have "accepts z (get x k) = spec_accepts v (get x k)"
            by auto
          ultimately show "accepts z (get x k)" by simp
        qed
      qed
      then show ?thesis
        using schema None by (simp add: accepts_object del: get.simps)
    qed
    with v show ?thesis by simp
  qed
qed

section \<open>Properties of the object validator\<close>

lemma assign_keys:
  assumes "assign shape key v = Inr shape'"
  shows "set (map fst (fst shape')) \<subseteq> insert key (set (map fst (fst shape)))"
proof -
  obtain own proto where s: "shape = (own, proto)" by (cases shape)
  have u: "set (map fst (AList.update key v own)) \<subseteq> insert key (set (map fst own))"
    by (simp add: dom_update)
  from assms s consider "shape' = (own, Some v)" | "shape' = (AList.update key v own, proto)"
    by (auto simp: assign_def split: if_splits)
  then show ?thesis
  proof cases
    case 1
    with s show ?thesis by auto
  next
    case 2
    with s u show ?thesis by simp
  qed
qed

lemma for_in_keys:
  "for_in props shape0 = Inr shape \<Longrightarrow>
     set (map fst (fst shape)) \<subseteq> set (map fst (fst shape0)) \<union> set (map fst props)"
proof (induction props arbitrary: shape0)
  case Nil
  then show ?case by simp
next
  case (Cons p props)
  obtain key val where p: "p = (key, val)" by (cases p)
  from Cons.prems p obtain v shape1 where v: "jsonSchemaToZod val = Inr v"
    and a: "assign shape0 key v = Inr shape1"
    and rest: "for_in props shape1 = Inr shape"
    by (auto split: sum.splits)
  from Cons.IH [OF rest] assign_keys [OF a] p show ?case
    by auto
qed

lemma those_keys:
  "those (map (\<lambda>(k, t). map_option (Pair k) (f k t)) shape) = Some parsed \<Longrightarrow>
     map fst parsed = map fst shape"
proof (induction shape arbitrary: parsed)
  case Nil
  then show ?case by simp
next
  case (Cons p shape)
  then show ?case
    by (cases p) (auto split: option.splits)
qed

lemma safeParse_object_keys:
  assumes "safeParse (ZodObject shape Strip) x = Some out"
  shows "set (own_keys out) \<subseteq> set (map fst shape)"
proof (cases x)
  case (JObject props)
  with assms obtain parsed
    where parsed: "those (map (\<lambda>(k, t). map_option (Pair k) (safeParse t (get x k))) shape) =
                     Some parsed"
      and out: "out = JObject (filter (\<lambda>(k, v). k \<noteq> ''__proto__'') parsed)"
    by auto
  from those_keys [OF parsed] have "map fst parsed = map fst shape" .
  then have "set (map fst (filter (\<lambda>(k, v). k \<noteq> ''__proto__'') parsed)) \<subseteq> set (map fst shape)"
    by (metis (no_types, lifting) filter_is_subset image_mono set_map)
  with out show ?thesis by (simp add: own_keys_def)
qed (use assms in simp_all)

lemma safeParse_object_cong:
  assumes "\<forall>k \<in> set (map fst shape). map_of cand k = map_of cand' k"
  shows "safeParse (ZodObject shape Strip) (JObject cand) =
         safeParse (ZodObject shape Strip) (JObject cand')"
proof -
  have "map (\<lambda>(k, t). map_option (Pair k) (safeParse t (get (JObject cand) k))) shape =
        map (\<lambda>(k, t). map_option (Pair k) (safeParse t (get (JObject cand') k))) shape"
    using assms by (intro map_cong) (auto simp: rev_image_eqI)
  then show ?thesis
    by (simp only: safeParse.simps js_value.case unknown_keys.distinct if_False)
qed

lemma map_of_filter_keys:
  "P k \<Longrightarrow> map_of (filter (\<lambda>(k, v). P k) cand) k = map_of cand k"
  by (induction cand) auto

text \<open>
  C9. The validator compiled for an object node is an object validator that strips unknown
  keys. It accepts a candidate object exactly when the value at each key of its shape is
  accepted by the validator of that key; parsing a candidate gives what parsing its
  restriction to the declared keys gives, so undeclared keys never make it fail; and the value
  returned has declared keys only.
\<close>

theorem object_validator_strips_undeclared_keys:
  assumes "determineSchemaType node = Inr (JString ''object'')"
    and "jsonSchemaToZod node = Inr validator"
  shows "(\<exists>shape. validator = ZodObject shape Strip \<and>
            accepts validator (JObject cand) =
              (\<forall>(k, t) \<in> set shape. accepts t (get (JObject cand) k))) \<and>
         parse validator (JObject cand) =
           parse validator (JObject (filter (\<lambda>(k, v). k \<in> set (own_keys node)) cand)) \<and>
         (parse validator (JObject cand) = Inr out \<longrightarrow>
            set (own_keys out) \<subseteq> set (own_keys node))"
proof -
  from assms obtain shape where shape: "for_in (own_properties node) ([], None) = Inr shape"
    and validator: "validator = ZodObject (fst shape) Strip"
    by (subst (asm) jsonSchemaToZod.simps) (auto split: sum.splits)
  from for_in_keys [OF shape] have keys: "set (map fst (fst shape)) \<subseteq> set (own_keys node)"
    by (simp add: own_keys_def)
  have "\<forall>k \<in> set (map fst (fst shape)).
          map_of cand k = map_of (filter (\<lambda>(k, v). k \<in> set (own_keys node)) cand) k"
    using keys map_of_filter_keys [of "\<lambda>k. k \<in> set (own_keys node)"] by (metis subsetD)
  then have "safeParse validator (JObject cand) =
             safeParse validator (JObject (filter (\<lambda>(k, v). k \<in> set (own_keys node)) cand))"
    unfolding validator by (rule safeParse_object_cong)
  then have same: "parse validator (JObject cand) =
           parse validator (JObject (filter (\<lambda>(k, v). k \<in> set (own_keys node)) cand))"
    by (simp add: parse_def)
  have "set (own_keys out) \<subseteq> set (own_keys node)" if "parse validator (JObject cand) = Inr out"
  proof -
    from that have "safeParse (ZodObject (fst shape) Strip) (JObject cand) = Some out"
      by (simp add: parse_def validator split: option.splits)
    from safeParse_object_keys [OF this] keys show ?thesis by blast
  qed
  moreover have "accepts validator (JObject cand) =
                   (\<forall>(k, t) \<in> set (fst shape). accepts t (get (JObject cand) k))"
    unfolding validator by (simp add: accepts_object del: get.simps)
  ultimately show ?thesis using validator same by blast
qed

theorem object_validator_strips_undeclared_keys_witness:
  "determineSchemaType (JObject [(''name'', JObject [(''type'', JString ''string'')])]) =
     Inr (JString ''object'') \<and>
   jsonSchemaToZod (JObject [(''name'', JObject [(''type'', JString ''string'')])]) =
     Inr (ZodObject [(''name'', ZodNullable ZodString)] Strip) \<and>
   parse (ZodObject [(''name'', ZodNullable ZodString)] Strip)
     (JObject [(''name'', JString ''John'')]) =
     Inr (JObject [(''name'', JString ''John'')]) \<and>
   parse (ZodObject [(''name'', ZodNullable ZodString)] Strip)
     (JObject [(''name'', JString ''John''), (''nickname'', JString ''Jo'')]) =
     Inr (JObject [(''name'', JString ''John'')]) \<and>
   set (own_keys (JObject [(''name'', JString ''John'')])) \<subseteq>
     set (own_keys (JObject [(''name'', JObject [(''type'', JString ''string'')])]))"
  using object_validator_strips_undeclared_keys
    [of "JObject [(''name'', JObject [(''type'', JString ''string'')])]"
        "ZodObject [(''name'', ZodNullable ZodString)] Strip"
        "[(''name'', JString ''John''), (''nickname'', JString ''Jo'')]"
        "JObject [(''name'', JString ''John'')]"]
  by (simp add: jsonSchemaToZod.simps determineSchemaType_def assign_def parse_def own_keys_def)

section \<open>Properties of the request handler\<close>

lemma shape_check_fails: "\<not> shape_check body \<Longrightarrow> parse inputSchema body = Inl ZodError"
  by (cases body; cases "get body ''input''"; cases "get body ''format''")
     (auto simp: shape_check_def parse_def inputSchema_def split: option.splits)

text \<open>
  C4. When the body fails the shape check, or the translation of \<^verbatim>\<open>format\<close> throws
  the unsupported type error, the handler fails with no invocation of the generation client:
  the counter of its invocations stays at 0 and the state of the world is untouched.
\<close>

theorem handler_fails_before_generation:
  assumes "\<not> shape_check body \<or>
           (\<exists>parsed msg. parse inputSchema body = Inr parsed \<and>
                          jsonSchemaToZod (get parsed ''format'') = Inl (Error msg))"
  shows "\<exists>err. handler JSON_parse (\<lambda>p. counting (generateContent p)) (Inr body) (s, 0) =
                 Some (Inl err, (s, 0))"
  using assms by (auto simp: handler_def shape_check_fails)

theorem handler_fails_before_generation_witness:
  "\<not> shape_check (JObject [(''input'', JString ''My name is John.'')]) \<and>
   (\<exists>err. handler (\<lambda>text. Inr (JObject [])) (\<lambda>p. counting (\<lambda>s :: nat. (Inr ''{}'', Suc s)))
            (Inr (JObject [(''input'', JString ''My name is John.'')])) (0, 0) =
          Some (Inl err, (0, 0))) \<and>
   parse inputSchema
     (JObject [(''input'', JString ''My name is John.''),
               (''format'', JObject [(''type'', JString ''unknown'')])]) =
     Inr (JObject [(''input'', JString ''My name is John.''),
                   (''format'', JObject [(''type'', JString ''unknown'')])]) \<and>
   (\<exists>err. handler (\<lambda>text. Inr (JObject [])) (\<lambda>p. counting (\<lambda>s :: nat. (Inr ''{}'', Suc s)))
            (Inr (JObject [(''input'', JString ''My name is John.''),
                           (''format'', JObject [(''type'', JString ''unknown'')])])) (0, 0) =
          Some (Inl err, (0, 0)))"
  using handler_fails_before_generation
    [of "JObject [(''input'', JString ''My name is John.'')]"
        "\<lambda>text. Inr (JObject [])" "\<lambda>p s :: nat. (Inr ''{}'', Suc s)" 0]
    handler_fails_before_generation
    [of "JObject [(''input'', JString ''My name is John.''),
                  (''format'', JObject [(''type'', JString ''unknown'')])]"
        "\<lambda>text. Inr (JObject [])" "\<lambda>p s :: nat. (Inr ''{}'', Suc s)" 0]
  by (simp add: shape_check_def parse_def inputSchema_def jsonSchemaToZod.simps
        determineSchemaType_def)


end
